theory Spec2Isabelle
  imports Main
begin

section \<open>Terms, statements and the statement store\<close>

text \<open>
  The generator builds two rdflib graphs, \<open>G\<close> and \<open>shaclGraph\<close>, out of terms: IRIs
  (\<open>URIRef\<close>), blank nodes with a given identifier (\<open>BNode("...")\<close>), blank nodes with
  a generated identifier (\<open>BNode()\<close>, modelled by a counter) and literals.
\<close>

type_synonym uri = string

datatype node =
    URIRef uri
  | BNode string
  | Fresh nat
  | LitStr string
  | LitInt int
  | LitBool bool

type_synonym triple = "node \<times> node \<times> node"

text \<open>A graph is a set of statements; the list keeps the order of first insertion.\<close>

type_synonym graph = "triple list"

definition add :: "triple \<Rightarrow> graph \<Rightarrow> graph" where
  "add t g = (if t \<in> set g then g else g @ [t])"

definition objects :: "graph \<Rightarrow> node \<Rightarrow> node \<Rightarrow> node list" where
  "objects g s p = map (\<lambda>(s', p', ob). ob) (filter (\<lambda>(s', p', ob). s' = s \<and> p' = p) g)"

definition subjects :: "graph \<Rightarrow> node \<Rightarrow> node \<Rightarrow> node list" where
  "subjects g p ob = map (\<lambda>(s', p', ob'). s') (filter (\<lambda>(s', p', ob'). p' = p \<and> ob' = ob) g)"

subsection \<open>Namespaces\<close>

text \<open>
  Modelled from the spec: \<open>bricksrc/namespaces.py\<close> is not among the sources. Each
  namespace is the IRI prefix of the vocabulary it names; \<open>NS[x]\<close> and \<open>NS.x\<close> both
  append the local name to the prefix.
\<close>

definition BRICK :: "string \<Rightarrow> node" where
  "BRICK x = URIRef (''https://brickschema.org/schema/Brick#'' @ x)"

definition BSH :: "string \<Rightarrow> node" where
  "BSH x = URIRef (''https://brickschema.org/schema/BrickShape#'' @ x)"

definition TAG :: "string \<Rightarrow> node" where
  "TAG x = URIRef (''https://brickschema.org/schema/BrickTag#'' @ x)"

definition RDF :: "string \<Rightarrow> node" where
  "RDF x = URIRef (''http://www.w3.org/1999/02/22-rdf-syntax-ns#'' @ x)"

definition RDFS :: "string \<Rightarrow> node" where
  "RDFS x = URIRef (''http://www.w3.org/2000/01/rdf-schema#'' @ x)"

definition OWL :: "string \<Rightarrow> node" where
  "OWL x = URIRef (''http://www.w3.org/2002/07/owl#'' @ x)"

definition SH :: "string \<Rightarrow> node" where
  "SH x = URIRef (''http://www.w3.org/ns/shacl#'' @ x)"

definition SKOS :: "string \<Rightarrow> node" where
  "SKOS x = URIRef (''http://www.w3.org/2004/02/skos/core#'' @ x)"

definition QUDT :: "string \<Rightarrow> node" where
  "QUDT x = URIRef (''http://qudt.org/schema/qudt/'' @ x)"

definition A :: node where
  "A = RDF ''type''"

subsection \<open>Python string helpers\<close>

text \<open>\<open>s.split("#")[-1]\<close>: what follows the last \<open>#\<close>, the whole string when there is none.\<close>

definition local_name :: "string \<Rightarrow> string" where
  "local_name s = rev (takeWhile (\<lambda>c. c \<noteq> CHR ''#'') (rev s))"

text \<open>\<open>s.replace("_", " ")\<close>.\<close>

definition underscores_to_spaces :: "string \<Rightarrow> string" where
  "underscores_to_spaces s = map (\<lambda>c. if c = CHR ''_'' then CHR '' '' else c) s"

text \<open>\<open>str(n)\<close> for a non-negative integer, as the f-strings render a tag count.\<close>

definition digit_char :: "nat \<Rightarrow> char" where
  "digit_char d = ''0123456789'' ! d"

function str_nat :: "nat \<Rightarrow> string" where
  "str_nat n = (if n < 10 then [digit_char n] else str_nat (n div 10) @ [digit_char (n mod 10)])"
  by pat_completeness auto
termination
  by (relation "measure id") auto

declare str_nat.simps [simp del]

text \<open>
  Every rdflib term is a Python \<open>str\<close>: the IRI, the blank-node identifier or the
  lexical form of the literal. This is the string that \<open>split\<close> and the f-strings see.
\<close>

fun term_str :: "node \<Rightarrow> string" where
  "term_str (URIRef u) = u"
| "term_str (BNode b) = b"
| "term_str (Fresh n) = ''N'' @ str_nat n"
| "term_str (LitStr x) = x"
| "term_str (LitInt i) = (if i < 0 then ''-'' @ str_nat (nat (- i)) else str_nat (nat i))"
| "term_str (LitBool b) = (if b then ''true'' else ''false'')"

text \<open>\<open>t.split("#")[-1]\<close> for a term \<open>t\<close>.\<close>

definition local_part :: "node \<Rightarrow> string" where
  "local_part t = local_name (term_str t)"

subsection \<open>The module's global state\<close>

record store =
  G :: graph
  shaclGraph :: graph
  shacl_tag_property_shapes :: "node \<rightharpoonup> node"
  has_exactly_n_tags_shapes :: "nat \<rightharpoonup> node"
  bnodes :: nat
  warnings :: "string list"

definition init :: store where
  "init = \<lparr> G = [], shaclGraph = [], shacl_tag_property_shapes = Map.empty,
            has_exactly_n_tags_shapes = Map.empty, bnodes = 0, warnings = [] \<rparr>"

definition G_add :: "triple \<Rightarrow> store \<Rightarrow> store" where
  "G_add t s = s\<lparr>G := add t (G s)\<rparr>"

definition shacl_add :: "triple \<Rightarrow> store \<Rightarrow> store" where
  "shacl_add t s = s\<lparr>shaclGraph := add t (shaclGraph s)\<rparr>"

text \<open>\<open>BNode()\<close>: a blank node no earlier call has returned.\<close>

definition new_bnode :: "store \<Rightarrow> node \<times> store" where
  "new_bnode s = (Fresh (bnodes s), s\<lparr>bnodes := Suc (bnodes s)\<rparr>)"

datatype error =
    AssertionError string
  | KeyError string
  | ConstraintException string
  | RangeException string

text \<open>A raised exception leaves the globals as they were when it was raised.\<close>

type_synonym result = "error \<times> store + store"

definition bind :: "result \<Rightarrow> (store \<Rightarrow> result) \<Rightarrow> result" where
  "bind r f = (case r of Inl e \<Rightarrow> Inl e | Inr s \<Rightarrow> f s)"

text \<open>
  \<open>rdflib.collection.Collection(G, head, items)\<close> appends the items to the RDF list at
  \<open>head\<close>. Every head the generator passes is a blank node it has just created, so the
  list starts at \<open>head\<close> itself: an item goes into the current cell when that cell has no
  \<open>rdf:first\<close> yet and into a new cell otherwise, and \<open>rdf:nil\<close> closes the list.
\<close>

fun Collection :: "node \<Rightarrow> node list \<Rightarrow> store \<Rightarrow> store" where
  "Collection end [] s = G_add (end, RDF ''rest'', RDF ''nil'') s"
| "Collection end (x # xs) s =
     (if end = RDF ''nil'' \<or> (\<exists>t \<in> set (G s). fst t = end \<and> fst (snd t) = RDF ''first'')
      then (let (nxt, s1) = new_bnode s;
                s2 = G_add (end, RDF ''rest'', nxt) s1;
                s3 = G_add (nxt, RDF ''first'', x) s2
            in Collection nxt xs s3)
      else Collection end xs (G_add (end, RDF ''first'', x) s))"

section \<open>Shared helpers of the generator\<close>

definition has_label :: "node \<Rightarrow> store \<Rightarrow> bool" where
  "has_label concept s = (length (objects (G s) concept (RDFS ''label'')) > 0)"

section \<open>Tag inference: \<open>add_tags\<close>\<close>

text \<open>The first loop: the tag statements of the class.\<close>

definition add_tags_assoc :: "node \<Rightarrow> node \<Rightarrow> store \<Rightarrow> store" where
  "add_tags_assoc klass tag s =
     G_add (tag, RDFS ''label'', LitStr (local_part tag))
       (G_add (tag, A, BRICK ''Tag'')
         (G_add (klass, BRICK ''hasAssociatedTag'', tag) s))"

text \<open>The second loop: the per-tag rule on the class, and the shared detection condition.\<close>

definition add_tags_condition :: "node \<Rightarrow> node \<Rightarrow> node \<Rightarrow> store \<Rightarrow> store" where
  "add_tags_condition klass rule tag s =
     (let classrule = BNode (''add_'' @ local_part tag @ ''_to_'' @ local_part klass);
          s = G_add (klass, A, SH ''NodeShape'') s;
          s = G_add (klass, SH ''rule'', classrule) s;
          s = G_add (classrule, A, SH ''TripleRule'') s;
          s = G_add (classrule, SH ''subject'', SH ''this'') s;
          s = G_add (classrule, SH ''predicate'', BRICK ''hasTag'') s;
          s = G_add (classrule, SH ''object'', tag) s;
          s = (if shacl_tag_property_shapes s tag = None then
                 (let cond = BNode (''has_'' @ local_part tag @ ''_condition'');
                      prop = BNode (''has_'' @ local_part tag @ ''_tag'');
                      (tagshape, s) = new_bnode s;
                      s = shacl_add (rule, SH ''condition'', cond) s;
                      s = shacl_add (cond, SH ''property'', prop) s;
                      s = shacl_add (prop, SH ''path'', BRICK ''hasTag'') s;
                      s = shacl_add (prop, SH ''qualifiedValueShape'', tagshape) s;
                      s = shacl_add (tagshape, SH ''hasValue'', tag) s;
                      s = shacl_add (prop, SH ''qualifiedMinCount'', LitInt 1) s
                  in s\<lparr>shacl_tag_property_shapes := (shacl_tag_property_shapes s)(tag \<mapsto> cond)\<rparr>)
               else s)
      in case shacl_tag_property_shapes s tag of
           Some c \<Rightarrow> shacl_add (rule, SH ''condition'', c) s
         | None \<Rightarrow> s)"

text \<open>The exact-cardinality shape and its companion rule, created once per tag count.\<close>

definition add_tags_cardinality :: "nat \<Rightarrow> store \<Rightarrow> store" where
  "add_tags_cardinality num_tags s =
     (if has_exactly_n_tags_shapes s num_tags = None then
        (let cond = BSH (''has_exactly_'' @ str_nat num_tags @ ''_tags_condition'');
             prop = BNode (''has_exactly_'' @ str_nat num_tags @ ''_tags'');
             s = shacl_add (cond, A, OWL ''Class'') s;
             s = shacl_add (cond, A, SH ''NodeShape'') s;
             s = shacl_add (cond, SH ''property'', prop) s;
             s = shacl_add (prop, SH ''path'', BRICK ''hasTag'') s;
             s = shacl_add (prop, SH ''minCount'', LitInt (int num_tags)) s;
             s = shacl_add (prop, SH ''maxCount'', LitInt (int num_tags)) s;
             s = s\<lparr>has_exactly_n_tags_shapes := (has_exactly_n_tags_shapes s)(num_tags \<mapsto> cond)\<rparr>;
             rule = BSH (''has_exactly_'' @ str_nat num_tags @ ''_tags_rule'');
             body = BNode (''has_'' @ str_nat num_tags @ ''_tags_body'');
             s = shacl_add (rule, A, SH ''NodeShape'') s;
             s = shacl_add (rule, SH ''targetSubjectsOf'', BRICK ''hasTag'') s;
             s = shacl_add (rule, SH ''rule'', body) s;
             s = shacl_add (body, A, SH ''TripleRule'') s;
             s = shacl_add (body, SH ''subject'', SH ''this'') s;
             s = shacl_add (body, SH ''predicate'', RDF ''type'') s;
             s = shacl_add (body, SH ''object'', cond) s;
             s = shacl_add (body, SH ''condition'', cond) s
         in s)
      else s)"

definition add_tags :: "node \<Rightarrow> node list \<Rightarrow> store \<Rightarrow> store" where
  "add_tags klass definition s =
     (if length definition = 0 then s
      else
        (let s = fold (add_tags_assoc klass) definition s;
             sc = BSH (local_part klass @ ''_TagShape'');
             s = shacl_add (sc, A, SH ''NodeShape'') s;
             rule = BNode (term_str klass @ ''TagInferenceRule'');
             s = shacl_add (sc, SH ''rule'', rule) s;
             s = shacl_add (rule, A, SH ''TripleRule'') s;
             s = shacl_add (rule, SH ''subject'', SH ''this'') s;
             s = shacl_add (rule, SH ''predicate'', RDF ''type'') s;
             s = shacl_add (rule, SH ''object'', klass) s;
             s = fold (add_tags_condition klass rule) definition s;
             s = add_tags_cardinality (length definition) s
         in case has_exactly_n_tags_shapes s (length definition) of
              Some c \<Rightarrow> shacl_add (sc, SH ''targetClass'', c) s
            | None \<Rightarrow> s))"

section \<open>Class hierarchy: \<open>define_constraints\<close> and \<open>define_classes\<close>\<close>

text \<open>A pass-through value of a definition: one term, or a list of terms.\<close>

datatype propval = One node | Many "node list"

text \<open>
  The value of a constraint: one term (only an IRI is accepted) or a list of terms.
\<close>

datatype allowed = Allowed node | AllowedList "node list"

text \<open>
  A class definition node: the reserved keys \<open>tags\<close>, \<open>subclasses\<close>, \<open>parents\<close> and
  \<open>constraints\<close> (an absent key reads as its default, the empty list or dict), and the
  remaining predicate/value pairs in \<open>others\<close>. The key \<open>substances\<close> is reserved and
  never read, so it has no field.
\<close>

datatype classdef =
  ClassDef (tags: "node list") (subclasses: "(string \<times> classdef) list")
    (parents: "node list") (constraints: "(node \<times> allowed) list")
    (others: "(node \<times> propval) list")

text \<open>The loop of \<open>define_constraints\<close> for the members of a list of allowed classes.\<close>

fun constraint_members :: "node list \<Rightarrow> node list \<Rightarrow> store \<Rightarrow> node list \<times> store" where
  "constraint_members [] possible_values s = (possible_values, s)"
| "constraint_members (pv # pvs) possible_values s =
     (let (pvnode, s) = new_bnode s;
          s = G_add (pvnode, SH ''class'', pv) s
      in constraint_members pvs (possible_values @ [pvnode]) s)"

definition define_constraint :: "node \<Rightarrow> node \<Rightarrow> allowed \<Rightarrow> store \<Rightarrow> result" where
  "define_constraint classname property_name property_values s =
     (let (pnode, s) = new_bnode s;
          (onode, s) = new_bnode s;
          s = G_add (classname, A, SH ''NodeShape'') s;
          s = G_add (classname, SH ''property'', pnode) s;
          s = G_add (pnode, SH ''path'', property_name) s
      in case property_values of
           Allowed (URIRef u) \<Rightarrow> Inr (G_add (pnode, SH ''class'', URIRef u) s)
         | AllowedList pvs \<Rightarrow>
             (let s = G_add (pnode, SH ''or'', onode) s;
                  (possible_values, s) = constraint_members pvs [] s
              in Inr (Collection onode possible_values s))
         | Allowed _ \<Rightarrow>
             Inl (ConstraintException ''Do not know how to handle constraints'', s))"

fun define_constraints :: "(node \<times> allowed) list \<Rightarrow> node \<Rightarrow> store \<Rightarrow> result" where
  "define_constraints [] classname s = Inr s"
| "define_constraints ((property_name, property_values) # rest) classname s =
     bind (define_constraint classname property_name property_values s)
          (define_constraints rest classname)"

text \<open>Copying a pass-through pair onto a subject, as the last loop of \<open>define_classes\<close> does.\<close>

definition copy_property :: "node \<Rightarrow> node \<times> propval \<Rightarrow> store \<Rightarrow> store" where
  "copy_property subject kv s =
     (case snd kv of
        Many pvs \<Rightarrow> fold (\<lambda>pv. G_add (subject, fst kv, pv)) pvs s
      | One pv \<Rightarrow> G_add (subject, fst kv, pv) s)"

function define_classes :: "(string \<times> classdef) list \<Rightarrow> node \<Rightarrow> bool \<Rightarrow> store \<Rightarrow> result"
  and define_class :: "string \<Rightarrow> classdef \<Rightarrow> node \<Rightarrow> bool \<Rightarrow> store \<Rightarrow> result" where
  "define_classes [] parent pun_classes s = Inr s"
| "define_classes ((name, defn) # rest) parent pun_classes s =
     (case define_class name defn parent pun_classes s of
        Inl e \<Rightarrow> Inl e
      | Inr s' \<Rightarrow> define_classes rest parent pun_classes s')"
| "define_class name defn parent pun_classes s =
     (let classname = BRICK name;
          s = G_add (classname, A, OWL ''Class'') s;
          s = G_add (classname, RDFS ''subClassOf'', parent) s;
          class_label = underscores_to_spaces (local_part classname);
          s = (if \<not> has_label classname s
               then G_add (classname, RDFS ''label'', LitStr class_label) s else s);
          s = (if pun_classes then G_add (classname, A, classname) s else s);
          taglist = tags defn;
          s = (if length taglist = 0
               then s\<lparr>warnings := warnings s @ [''Property 'tags' not defined for '' @ term_str classname]\<rparr>
               else s);
          s = add_tags classname taglist s
      in case define_classes (subclasses defn) classname False s of
           Inl e \<Rightarrow> Inl e
         | Inr s \<Rightarrow>
             (let s = fold (\<lambda>p. G_add (classname, RDFS ''subClassOf'', p)) (parents defn) s
              in case define_constraints (constraints defn) classname s of
                   Inl e \<Rightarrow> Inl e
                 | Inr s \<Rightarrow> Inr (fold (copy_property classname) (others defn) s)))"
  by pat_completeness auto
termination
proof (relation "measure (\<lambda>x. case x of
         Inl (defs, _) \<Rightarrow> size_list (size_prod (\<lambda>_. 0) size) defs
       | Inr (_, defn, _) \<Rightarrow> size defn)", goal_cases)
  case (4 name defn parent pun_classes s)
  then show ?case by (cases defn) simp
qed auto

section \<open>Relationships: \<open>add_relationships\<close> and \<open>define_relationships\<close>\<close>

text \<open>
  A value that \<open>add_relationships\<close> copies: a term, a list of terms, or a nested dict,
  which it skips.
\<close>

datatype relval = Value propval | Dict

definition add_relationship :: "node \<Rightarrow> node \<times> relval \<Rightarrow> store \<Rightarrow> store" where
  "add_relationship item kv s =
     (case snd kv of
        Value (Many pvs) \<Rightarrow> fold (\<lambda>pv. G_add (item, fst kv, pv)) pvs s
      | Value (One pv) \<Rightarrow> G_add (item, fst kv, pv) s
      | Dict \<Rightarrow> s)"

definition add_relationships :: "node \<Rightarrow> (node \<times> relval) list \<Rightarrow> store \<Rightarrow> store" where
  "add_relationships item propdefs s = fold (add_relationship item) propdefs s"

text \<open>The value of \<open>range\<close>: a class, a list or tuple of classes, or \<open>None\<close>.\<close>

datatype rangeval = RangeOne node | RangeList "node list" | RangeNone

text \<open>
  A relationship definition: the property types under the key \<open>A\<close>, the nested
  \<open>subproperties\<close>, the optional \<open>range\<close>, \<open>datatype\<close> and \<open>domain\<close>, and the
  remaining predicate/value pairs.
\<close>

datatype reldef =
  RelDef (rel_types: "node list") (rel_subproperties: "(string \<times> reldef) list")
    (rel_range: "rangeval option") (rel_datatype: "node option")
    (rel_domain: "propval option") (rel_others: "(node \<times> relval) list")

text \<open>The loop that gives every class of a list range its own constraint node.\<close>

fun range_members :: "node list \<Rightarrow> node list \<Rightarrow> store \<Rightarrow> node list \<times> store" where
  "range_members [] cs s = (cs, s)"
| "range_members (cls # rest) cs s =
     (let (constraint, s) = new_bnode s;
          s = G_add (constraint, SH ''class'', cls) s
      in range_members rest (cs @ [constraint]) s)"

definition shape_range :: "node \<Rightarrow> rangeval option \<Rightarrow> store \<Rightarrow> store" where
  "shape_range propshape r s =
     (case r of
        None \<Rightarrow> s
      | Some (RangeList range_defn) \<Rightarrow>
          (let (enumeration, s) = new_bnode s;
               s = G_add (propshape, SH ''or'', enumeration) s;
               (cs, s) = range_members range_defn [] s
           in Collection enumeration cs s)
      | Some (RangeOne range_defn) \<Rightarrow> G_add (propshape, SH ''class'', range_defn) s
      | Some RangeNone \<Rightarrow> s)"

definition shape_datatype :: "node \<Rightarrow> node option \<Rightarrow> store \<Rightarrow> store" where
  "shape_datatype propshape d s =
     (case d of
        None \<Rightarrow> s
      | Some dtype_defn \<Rightarrow>
          (if dtype_defn = BSH ''NumericValue''
           then G_add (propshape, SH ''or'', BSH ''NumericValue'') s
           else G_add (propshape, SH ''datatype'', dtype_defn) s))"

definition shape_domain :: "node \<Rightarrow> propval option \<Rightarrow> store \<Rightarrow> store" where
  "shape_domain propshape dm s =
     (case dm of
        None \<Rightarrow> s
      | Some (Many domains) \<Rightarrow> fold (\<lambda>d. G_add (d, SH ''property'', propshape)) domains s
      | Some (One d) \<Rightarrow> G_add (d, SH ''property'', propshape) s)"

text \<open>
  A key of the definitions is a plain string (an IRI is one too, \<open>URIRef\<close> being a
  subclass of \<open>str\<close>), so the property is always \<open>BRICK[prop]\<close>.
\<close>

function define_relationships :: "(string \<times> reldef) list \<Rightarrow> node option \<Rightarrow> store \<Rightarrow> store"
  and define_relationship :: "string \<Rightarrow> reldef \<Rightarrow> node option \<Rightarrow> store \<Rightarrow> store" where
  "define_relationships [] superprop s = s"
| "define_relationships ((name, propdefn) # rest) superprop s =
     define_relationships rest superprop (define_relationship name propdefn superprop s)"
| "define_relationship name propdefn superprop s =
     (let prop = BRICK name;
          s = (case superprop of
                 Some sp \<Rightarrow> G_add (prop, RDFS ''subPropertyOf'', sp) s
               | None \<Rightarrow> s);
          s = G_add (prop, RDFS ''subPropertyOf'', BRICK ''Relationship'') s;
          s = fold (\<lambda>prop_type. G_add (prop, A, prop_type)) (rel_types propdefn) s;
          s = define_relationships (rel_subproperties propdefn) (Some prop) s;
          propshape = BSH (local_part prop @ ''Shape'');
          s = G_add (propshape, A, SH ''PropertyShape'') s;
          s = G_add (propshape, SH ''path'', prop) s;
          s = shape_range propshape (rel_range propdefn) s;
          s = shape_datatype propshape (rel_datatype propdefn) s;
          s = shape_domain propshape (rel_domain propdefn) s
      in add_relationships prop (rel_others propdefn) s)"
  by pat_completeness auto
termination
proof (relation "measure (\<lambda>x. case x of
         Inl (defs, _) \<Rightarrow> size_list (size_prod (\<lambda>_. 0) size) defs
       | Inr (_, propdefn, _) \<Rightarrow> size propdefn)", goal_cases)
  case (4 name propdefn superprop s)
  then show ?case by (cases propdefn) simp
qed auto

section \<open>Entity properties: \<open>define_entity_properties\<close>\<close>

text \<open>
  An entity-property definition: \<open>property_of\<close>, \<open>SH.node\<close>, \<open>RDFS.label\<close> and
  \<open>subproperties\<close>, each possibly absent, and the remaining predicate/value pairs.
\<close>

datatype epdef =
  EpDef (property_of: "propval option") (sh_node: "node option") (ep_label: "node option")
    (ep_subproperties: "(node \<times> epdef) list option") (ep_others: "(node \<times> propval) list")

function define_entity_properties :: "(node \<times> epdef) list \<Rightarrow> node option \<Rightarrow> store \<Rightarrow> result"
  and define_entity_property :: "node \<Rightarrow> epdef \<Rightarrow> node option \<Rightarrow> store \<Rightarrow> result" where
  "define_entity_properties [] superprop s = Inr s"
| "define_entity_properties ((entprop, defn) # rest) superprop s =
     (case define_entity_property entprop defn superprop s of
        Inl e \<Rightarrow> Inl e
      | Inr s' \<Rightarrow> define_entity_properties rest superprop s')"
| "define_entity_property entprop defn superprop s =
     (if property_of defn = None then
        Inl (AssertionError (term_str entprop @ '' missing a 'property_of' annotation so Brick doesn't know where this property can be used''), s)
      else if sh_node defn = None then
        Inl (AssertionError (term_str entprop @ '' missing a SH.node annotation so Brick doesn't know what the values of this property can be''), s)
      else if ep_label defn = None then
        Inl (AssertionError (term_str entprop @ '' missing a RDFS.label annotation''), s)
      else
        (let s = G_add (entprop, A, BRICK ''EntityProperty'') s;
             s = (case superprop of
                    Some sp \<Rightarrow> G_add (entprop, RDFS ''subPropertyOf'', sp) s
                  | None \<Rightarrow> s)
         in case (case ep_subproperties defn of
                    Some subproperties \<Rightarrow>
                      define_entity_properties subproperties (Some (entprop)) s
                  | None \<Rightarrow> Inr s) of
              Inl e \<Rightarrow> Inl e
            | Inr s \<Rightarrow>
                (let pshape = BSH (''has'' @ local_part entprop @ ''Shape'');
                     s = G_add (pshape, A, SH ''PropertyShape'') s;
                     s = G_add (pshape, SH ''path'', entprop) s;
                     s = G_add (pshape, SH ''node'', the (sh_node defn)) s;
                     s = G_add (pshape, RDFS ''label'',
                           LitStr (''has '' @ term_str (the (ep_label defn)) @ '' property'')) s;
                     shapes = (case the (property_of defn) of Many xs \<Rightarrow> xs | One x \<Rightarrow> [x]);
                     s = fold (\<lambda>shape. G_add (shape, SH ''property'', pshape)) shapes s;
                     s = G_add (entprop, RDFS ''label'', the (ep_label defn)) s
                 in Inr (fold (copy_property (entprop)) (ep_others defn) s))))"
  by pat_completeness auto
termination
proof (relation "measure (\<lambda>x. case x of
         Inl (defs, _) \<Rightarrow> size_list (size_prod (\<lambda>_. 0) size) defs
       | Inr (_, defn, _) \<Rightarrow> size defn)", goal_cases)
  case (4 entprop defn superprop s subproperties)
  then show ?case by (cases defn) simp
qed auto

section \<open>Value shapes: \<open>define_shape_property_property\<close>\<close>

text \<open>
  The definition of one sub-property of a shape: the keys \<open>optional\<close>, \<open>import_from\<close>,
  \<open>datatype\<close> and \<open>values\<close>, each possibly absent, and the remaining pairs.
\<close>

datatype propdefn =
  PropDefn (optional: "bool option") (import_from: "string option") (dtype: "node option")
    (vals: "node list option") (pd_others: "(node \<times> relval) list")

text \<open>\<open>len(prop_defn.keys())\<close>.\<close>

definition num_keys :: "propdefn \<Rightarrow> nat" where
  "num_keys d =
     (if optional d = None then 0 else 1) + (if import_from d = None then 0 else 1)
     + (if dtype d = None then 0 else 1) + (if vals d = None then 0 else 1)
     + length (pd_others d)"

text \<open>
  The \<open>properties\<close> of a shape: the list under the key \<open>or\<close> when there is one, and the
  sub-property definitions by property.
\<close>

datatype shapeprops =
  ShapeProps (or_defns: "shapeprops list option") (prop_defns: "(node \<times> propdefn) list")

text \<open>
  The query that looks for a property shape to reuse. Its pattern is
  \<open>?p sh:property ?p . ?p sh:path prop_name\<close> without a \<open>sh:minCount\<close> or
  \<open>sh:maxCount\<close> on \<open>?p\<close>, and it selects \<open>?x\<close>, which the pattern never binds:
  there is one row per match of \<open>?p\<close>, and its only column is unbound.
\<close>

definition prop_exists_query :: "graph \<Rightarrow> node \<Rightarrow> node option list" where
  "prop_exists_query g prop_name =
     map (\<lambda>p. None)
       (filter (\<lambda>p. (p, SH ''property'', p) \<in> set g
                  \<and> (p, SH ''path'', prop_name) \<in> set g
                  \<and> objects g p (SH ''minCount'') = []
                  \<and> objects g p (SH ''maxCount'') = [])
          (remdups (map fst g)))"

text \<open>
  One iteration of the loop over the sub-properties. \<open>files\<close> gives the statements of
  the file an \<open>import_from\<close> names. A statement with a component that is not an rdflib
  term (the unbound \<open>?x\<close>, the plain string \<open>"values"\<close>) is refused by \<open>Graph.add\<close>.
\<close>

definition define_shape_property ::
  "(string \<Rightarrow> graph) \<Rightarrow> node \<Rightarrow> node \<Rightarrow> propdefn \<Rightarrow> store \<Rightarrow> result" where
  "define_shape_property files shape_name prop_name prop_defn s =
     (let prop_exists =
            (if (case optional prop_defn of Some b \<Rightarrow> b | None \<Rightarrow> False)
                \<and> num_keys prop_defn = 1
             then prop_exists_query (G s) prop_name else [])
      in if length prop_exists > 0 then
           (case hd prop_exists of
              Some x \<Rightarrow> Inr (G_add (shape_name, SH ''property'', x) s)
            | None \<Rightarrow> Inl (AssertionError ''Object None must be an rdflib term'', s))
         else
           (let (ps, s) = new_bnode s;
                s = G_add (shape_name, SH ''property'', ps) s;
                s = G_add (ps, A, SH ''PropertyShape'') s;
                s = G_add (ps, SH ''path'', prop_name) s;
                s = (case import_from prop_defn of
                       Some fname \<Rightarrow>
                         fold (\<lambda>(p, ob). G_add (prop_name, p, ob))
                           (map snd (filter (\<lambda>t. fst t = prop_name) (files fname))) s
                     | None \<Rightarrow> s);
                s = (case optional prop_defn of
                       Some b \<Rightarrow> (if \<not> b then G_add (ps, SH ''minCount'', LitInt 1) s else s)
                     | None \<Rightarrow> G_add (ps, SH ''minCount'', LitInt 1) s)
            in case dtype prop_defn of
                 Some dt \<Rightarrow>
                   (let s = G_add (prop_name, A, OWL ''DatatypeProperty'') s;
                        s = (if dt = BSH ''NumericValue''
                             then G_add (ps, SH ''or'', BSH ''NumericValue'') s
                             else G_add (ps, SH ''datatype'', dt) s)
                    in if vals prop_defn \<noteq> None
                       then Inl (AssertionError ''Predicate values must be an rdflib term'', s)
                       else Inr (add_relationships ps (pd_others prop_defn) s))
               | None \<Rightarrow>
                   (case vals prop_defn of
                      Some vs \<Rightarrow>
                        (let (enumeration, s) = new_bnode s;
                             s = G_add (ps, SH ''in'', enumeration) s;
                             s = G_add (ps, SH ''minCount'', LitInt 1) s;
                             s = Collection enumeration vs s;
                             s = G_add (prop_name, A, OWL ''ObjectProperty'') s
                         in Inr (add_relationships ps (pd_others prop_defn) s))
                    | None \<Rightarrow>
                        (let s = G_add (prop_name, A, OWL ''ObjectProperty'') s
                         in Inr (add_relationships ps (pd_others prop_defn) s)))))"

fun define_shape_props ::
  "(string \<Rightarrow> graph) \<Rightarrow> node \<Rightarrow> (node \<times> propdefn) list \<Rightarrow> store \<Rightarrow> result" where
  "define_shape_props files shape_name [] s = Inr s"
| "define_shape_props files shape_name ((prop_name, prop_defn) # rest) s =
     (case define_shape_property files shape_name prop_name prop_defn s of
        Inl e \<Rightarrow> Inl e
      | Inr s' \<Rightarrow> define_shape_props files shape_name rest s')"

function define_shape_property_property ::
    "(string \<Rightarrow> graph) \<Rightarrow> node \<Rightarrow> shapeprops \<Rightarrow> store \<Rightarrow> result"
  and define_or_nodes ::
    "(string \<Rightarrow> graph) \<Rightarrow> shapeprops list \<Rightarrow> node list \<Rightarrow> store \<Rightarrow> error \<times> store + node list \<times> store"
  where
  "define_shape_property_property files shape_name definitions s =
     (case (case or_defns definitions of
              Some alternatives \<Rightarrow>
                (case define_or_nodes files alternatives [] s of
                   Inl e \<Rightarrow> Inl e
                 | Inr (or_list, s) \<Rightarrow>
                     (let (or_list_name, s) = new_bnode s;
                          s = G_add (shape_name, SH ''or'', or_list_name) s
                      in Inr (Collection or_list_name or_list s)))
            | None \<Rightarrow> Inr s) of
        Inl e \<Rightarrow> Inl e
      | Inr s \<Rightarrow> define_shape_props files shape_name (prop_defns definitions) s)"
| "define_or_nodes files [] or_list s = Inr (or_list, s)"
| "define_or_nodes files (or_node_defn # rest) or_list s =
     (let (or_node_shape, s) = new_bnode s
      in case define_shape_property_property files or_node_shape or_node_defn s of
           Inl e \<Rightarrow> Inl e
         | Inr s' \<Rightarrow> define_or_nodes files rest (or_list @ [or_node_shape]) s')"
  by pat_completeness auto
termination
proof (relation "measure (\<lambda>x. case x of
         Inl (_, _, definitions, _) \<Rightarrow> size definitions
       | Inr (_, alternatives, _) \<Rightarrow> size_list size alternatives)", goal_cases)
  case (2 files shape_name definitions s alternatives)
  then show ?case by (cases definitions) simp
qed auto

section \<open>Concept hierarchy, inverse closure and unit propagation\<close>

text \<open>
  The value under \<open>SKOS.narrower\<close> or \<open>SKOS.related\<close>: a nested dict of concept
  definitions, which is descended into, or anything else, which is only copied.
\<close>

datatype conceptdef =
  ConceptDef (c_label: "node option") (c_narrower: "(string \<times> conceptdef) list option")
    (c_related: "(string \<times> conceptdef) list option") (c_parents: "node list")
    (c_others: "(node \<times> relval) list")

text \<open>
  \<open>Literal(defn.get(RDFS.label, default))\<close>; a label given in the definition is also
  among the pairs that \<open>add_relationships\<close> copies at the end.
\<close>

function define_concept_hierarchy ::
    "(string \<times> conceptdef) list \<Rightarrow> node list \<Rightarrow> node option \<Rightarrow> node option \<Rightarrow> store \<Rightarrow> store"
  and define_concept ::
    "string \<Rightarrow> conceptdef \<Rightarrow> node list \<Rightarrow> node option \<Rightarrow> node option \<Rightarrow> store \<Rightarrow> store"
  where
  "define_concept_hierarchy [] typeclasses broader related s = s"
| "define_concept_hierarchy ((name, defn) # rest) typeclasses broader related s =
     define_concept_hierarchy rest typeclasses broader related
       (define_concept name defn typeclasses broader related s)"
| "define_concept name defn typeclasses broader related s =
     (let concept = BRICK name;
          s = fold (\<lambda>typeclass. G_add (concept, A, typeclass)) typeclasses s;
          s = (case broader of
                 Some b \<Rightarrow> G_add (b, SKOS ''narrower'', concept)
                             (G_add (concept, SKOS ''broader'', b) s)
               | None \<Rightarrow> s);
          s = (case related of
                 Some r \<Rightarrow> G_add (r, SKOS ''related'', concept)
                             (G_add (concept, SKOS ''related'', r) s)
               | None \<Rightarrow> s);
          label = (case c_label defn of
                     Some l \<Rightarrow> l
                   | None \<Rightarrow> LitStr (underscores_to_spaces
                                (local_part concept)));
          s = (if \<not> has_label concept s then G_add (concept, RDFS ''label'', label) s else s);
          s = (case c_narrower defn of
                 Some narrower_defs \<Rightarrow>
                   define_concept_hierarchy narrower_defs typeclasses (Some concept) None s
               | None \<Rightarrow> s);
          s = (case c_related defn of
                 Some related_defs \<Rightarrow>
                   define_concept_hierarchy related_defs typeclasses None (Some concept) s
               | None \<Rightarrow> s);
          s = fold (\<lambda>p. G_add (concept, SKOS ''broader'', p)) (c_parents defn) s;
          s = (case c_label defn of
                 Some l \<Rightarrow> G_add (concept, RDFS ''label'', l) s
               | None \<Rightarrow> s)
      in add_relationships concept (c_others defn) s)"
  by pat_completeness auto
termination
proof -
  have n: "size_list (size_prod (\<lambda>_. 0) size) x < size defn"
    if "c_narrower defn = Some x" for defn x
    using that by (cases defn) simp
  have r: "size_list (size_prod (\<lambda>_. 0) size) x < size defn"
    if "c_related defn = Some x" for defn x
    using that by (cases defn) simp
  show ?thesis
    by (relation "measure (\<lambda>x. case x of
         Inl (defs, _) \<Rightarrow> size_list (size_prod (\<lambda>_. 0) size) defs
       | Inr (_, defn, _) \<Rightarrow> size defn)") (auto simp: n r)
qed

text \<open>The pairs \<open>(s, o)\<close> of the statements \<open>s p o\<close> of a graph.\<close>

definition pairs :: "graph \<Rightarrow> node \<Rightarrow> (node \<times> node) list" where
  "pairs g p = map (\<lambda>(s, p', ob). (s, ob)) (filter (\<lambda>(s, p', ob). p' = p) g)"

text \<open>The property path \<open>?x rdf:type/rdfs:subClassOf* c\<close>.\<close>

definition typed_under :: "graph \<Rightarrow> node \<Rightarrow> node \<Rightarrow> bool" where
  "typed_under g x c =
     (\<exists>t \<in> set (objects g x A). (t, c) \<in> (set (pairs g (RDFS ''subClassOf'')))\<^sup>*)"

text \<open>The two \<open>CONSTRUCT\<close> queries: the statements each one builds from the graph.\<close>

definition construct_broader :: "graph \<Rightarrow> triple list" where
  "construct_broader g =
     map (\<lambda>(broader, narrower). (narrower, SKOS ''broader'', broader))
       (filter (\<lambda>(broader, narrower). typed_under g narrower (BRICK ''Entity''))
          (pairs g (SKOS ''narrower'')))"

definition construct_narrower :: "graph \<Rightarrow> triple list" where
  "construct_narrower g =
     map (\<lambda>(narrower, broader). (broader, SKOS ''narrower'', narrower))
       (filter (\<lambda>(narrower, broader). typed_under g broader (BRICK ''Entity''))
          (pairs g (SKOS ''broader'')))"

text \<open>
  The closure step of the module: both queries are evaluated with \<open>G.query\<close> and the
  graphs they return are not used.
\<close>

definition skos_closure :: "store \<Rightarrow> store" where
  "skos_closure s =
     (let unused1 = construct_broader (G s);
          unused2 = construct_narrower (G s)
      in s)"








section \<open>Deprecations: \<open>handle_deprecations\<close>\<close>

text \<open>The value under \<open>RDFS.subClassOf\<close> or \<open>SKOS.narrower\<close>: \<open>None\<close>, a term or a list.\<close>

datatype depval = DepNone | DepOne node | DepMany "node list"

record deprecation =
  dep_subClassOf :: "depval option"
  dep_narrower :: "depval option"
  dep_version :: "node option"
  dep_mitigation_message :: "node option"
  dep_replace_with :: "node option"

definition dep_targets :: "depval \<Rightarrow> node list" where
  "dep_targets v = (case v of DepNone \<Rightarrow> [] | DepOne x \<Rightarrow> [x] | DepMany xs \<Rightarrow> xs)"

definition handle_deprecation :: "node \<Rightarrow> deprecation \<Rightarrow> store \<Rightarrow> result" where
  "handle_deprecation deprecated_term md s =
     (let s = G_add (deprecated_term, A, OWL ''Class'') s;
          s = G_add (deprecated_term, OWL ''deprecated'', LitBool True) s;
          label = underscores_to_spaces (local_part deprecated_term);
          s = G_add (deprecated_term, RDFS ''label'', LitStr label) s;
          s = (case dep_subClassOf md of
                 Some superclasses \<Rightarrow>
                   fold (\<lambda>subclass. G_add (deprecated_term, RDFS ''subClassOf'', subclass))
                     (dep_targets superclasses) s
               | None \<Rightarrow>
                   (case dep_narrower md of
                      Some subconcepts \<Rightarrow>
                        fold (\<lambda>subclass. G_add (deprecated_term, SKOS ''narrower'', subclass))
                          (dep_targets subconcepts) s
                    | None \<Rightarrow> s))
      in case dep_version md of
           None \<Rightarrow> Inl (KeyError ''version'', s)
         | Some version \<Rightarrow>
             (let s = G_add (deprecated_term, BRICK ''deprecatedInVersion'', version) s
              in case dep_mitigation_message md of
                   None \<Rightarrow> Inl (KeyError ''mitigation_message'', s)
                 | Some message \<Rightarrow>
                     (let s = G_add (deprecated_term, BRICK ''deprecationMitigationMessage'', message) s
                      in case dep_replace_with md of
                           None \<Rightarrow> Inl (KeyError ''replace_with'', s)
                         | Some successor \<Rightarrow>
                             Inr (G_add (deprecated_term, BRICK ''isReplacedBy'', successor) s))))"

fun handle_deprecations :: "(node \<times> deprecation) list \<Rightarrow> store \<Rightarrow> result" where
  "handle_deprecations [] s = Inr s"
| "handle_deprecations ((deprecated_term, md) # rest) s =
     (case handle_deprecation deprecated_term md s of
        Inl e \<Rightarrow> Inl e
      | Inr s' \<Rightarrow> handle_deprecations rest s')"

section \<open>Notions the properties are stated with\<close>

text \<open>The label statements of a graph.\<close>

definition label_statements :: "graph \<Rightarrow> triple set" where
  "label_statements g = {t \<in> set g. fst (snd t) = RDFS ''label''}"

text \<open>
  The two halves of \<open>define_class\<close>, before and after the descent into the
  subclasses.
\<close>

definition class_head :: "string \<Rightarrow> classdef \<Rightarrow> node \<Rightarrow> bool \<Rightarrow> store \<Rightarrow> store" where
  "class_head name defn parent pun_classes s =
     (let classname = BRICK name;
          s = G_add (classname, A, OWL ''Class'') s;
          s = G_add (classname, RDFS ''subClassOf'', parent) s;
          class_label = underscores_to_spaces (local_part classname);
          s = (if \<not> has_label classname s
               then G_add (classname, RDFS ''label'', LitStr class_label) s else s);
          s = (if pun_classes then G_add (classname, A, classname) s else s);
          taglist = tags defn;
          s = (if length taglist = 0
               then s\<lparr>warnings := warnings s @ [''Property 'tags' not defined for '' @ term_str classname]\<rparr>
               else s)
      in add_tags classname taglist s)"

definition class_tail :: "string \<Rightarrow> classdef \<Rightarrow> store \<Rightarrow> result" where
  "class_tail name defn s =
     (let classname = BRICK name;
          s = fold (\<lambda>p. G_add (classname, RDFS ''subClassOf'', p)) (parents defn) s
      in case define_constraints (constraints defn) classname s of
           Inl e \<Rightarrow> Inl e
         | Inr s \<Rightarrow> Inr (fold (copy_property classname) (others defn) s))"

text \<open>The label statements that the two unguarded writes of a class produce.\<close>

definition tag_labels :: "node list \<Rightarrow> triple set" where
  "tag_labels taglist = (\<lambda>tag. (tag, RDFS ''label'', LitStr (local_part tag))) ` set taglist"

definition propval_terms :: "propval \<Rightarrow> node list" where
  "propval_terms v = (case v of One x \<Rightarrow> [x] | Many xs \<Rightarrow> xs)"

definition other_labels :: "node \<Rightarrow> (node \<times> propval) list \<Rightarrow> triple set" where
  "other_labels subject kvs =
     {(subject, RDFS ''label'', x) | x v. (RDFS ''label'', v) \<in> set kvs \<and> x \<in> set (propval_terms v)}"









section \<open>Example inputs\<close>

text \<open>
  Two quantities under the module's root statements; \<open>B\<close> lists \<open>A\<close> under
  \<open>parents\<close>.
\<close>

definition taxonomy_example :: store where
  "taxonomy_example =
     define_concept_hierarchy
       [(''A'', ConceptDef None None None [] []),
        (''B'', ConceptDef None None None [BRICK ''A''] [])]
       [BRICK ''Quantity''] None None
       (G_add (BRICK ''Quantity'', RDFS ''subClassOf'', BRICK ''Measurable'')
         (G_add (BRICK ''Measurable'', RDFS ''subClassOf'', BRICK ''Entity'') init))"




section \<open>Basic facts\<close>

subsection \<open>Namespaces are injective and pairwise disjoint\<close>

lemmas ns_defs = BRICK_def BSH_def TAG_def RDF_def RDFS_def OWL_def SH_def SKOS_def QUDT_def

lemma ns_inject [simp]:
  "BRICK x = BRICK y \<longleftrightarrow> x = y"
  "BSH x = BSH y \<longleftrightarrow> x = y"
  "TAG x = TAG y \<longleftrightarrow> x = y"
  "RDF x = RDF y \<longleftrightarrow> x = y"
  "RDFS x = RDFS y \<longleftrightarrow> x = y"
  "OWL x = OWL y \<longleftrightarrow> x = y"
  "SH x = SH y \<longleftrightarrow> x = y"
  "SKOS x = SKOS y \<longleftrightarrow> x = y"
  "QUDT x = QUDT y \<longleftrightarrow> x = y"
  by (simp_all add: ns_defs)

lemma ns_distinct [simp]:
  "BRICK x \<noteq> BSH y"
  "BRICK x \<noteq> TAG y"
  "BRICK x \<noteq> RDF y"
  "BRICK x \<noteq> RDFS y"
  "BRICK x \<noteq> OWL y"
  "BRICK x \<noteq> SH y"
  "BRICK x \<noteq> SKOS y"
  "BRICK x \<noteq> QUDT y"
  "BSH x \<noteq> BRICK y"
  "BSH x \<noteq> TAG y"
  "BSH x \<noteq> RDF y"
  "BSH x \<noteq> RDFS y"
  "BSH x \<noteq> OWL y"
  "BSH x \<noteq> SH y"
  "BSH x \<noteq> SKOS y"
  "BSH x \<noteq> QUDT y"
  "TAG x \<noteq> BRICK y"
  "TAG x \<noteq> BSH y"
  "TAG x \<noteq> RDF y"
  "TAG x \<noteq> RDFS y"
  "TAG x \<noteq> OWL y"
  "TAG x \<noteq> SH y"
  "TAG x \<noteq> SKOS y"
  "TAG x \<noteq> QUDT y"
  "RDF x \<noteq> BRICK y"
  "RDF x \<noteq> BSH y"
  "RDF x \<noteq> TAG y"
  "RDF x \<noteq> RDFS y"
  "RDF x \<noteq> OWL y"
  "RDF x \<noteq> SH y"
  "RDF x \<noteq> SKOS y"
  "RDF x \<noteq> QUDT y"
  "RDFS x \<noteq> BRICK y"
  "RDFS x \<noteq> BSH y"
  "RDFS x \<noteq> TAG y"
  "RDFS x \<noteq> RDF y"
  "RDFS x \<noteq> OWL y"
  "RDFS x \<noteq> SH y"
  "RDFS x \<noteq> SKOS y"
  "RDFS x \<noteq> QUDT y"
  "OWL x \<noteq> BRICK y"
  "OWL x \<noteq> BSH y"
  "OWL x \<noteq> TAG y"
  "OWL x \<noteq> RDF y"
  "OWL x \<noteq> RDFS y"
  "OWL x \<noteq> SH y"
  "OWL x \<noteq> SKOS y"
  "OWL x \<noteq> QUDT y"
  "SH x \<noteq> BRICK y"
  "SH x \<noteq> BSH y"
  "SH x \<noteq> TAG y"
  "SH x \<noteq> RDF y"
  "SH x \<noteq> RDFS y"
  "SH x \<noteq> OWL y"
  "SH x \<noteq> SKOS y"
  "SH x \<noteq> QUDT y"
  "SKOS x \<noteq> BRICK y"
  "SKOS x \<noteq> BSH y"
  "SKOS x \<noteq> TAG y"
  "SKOS x \<noteq> RDF y"
  "SKOS x \<noteq> RDFS y"
  "SKOS x \<noteq> OWL y"
  "SKOS x \<noteq> SH y"
  "SKOS x \<noteq> QUDT y"
  "QUDT x \<noteq> BRICK y"
  "QUDT x \<noteq> BSH y"
  "QUDT x \<noteq> TAG y"
  "QUDT x \<noteq> RDF y"
  "QUDT x \<noteq> RDFS y"
  "QUDT x \<noteq> OWL y"
  "QUDT x \<noteq> SH y"
  "QUDT x \<noteq> SKOS y"
  by (simp_all add: ns_defs)

lemma ns_not_blank [simp]:
  "BRICK x \<noteq> BNode b"
  "BNode b \<noteq> BRICK x"
  "BRICK x \<noteq> Fresh n"
  "Fresh n \<noteq> BRICK x"
  "BRICK x \<noteq> LitStr l"
  "LitStr l \<noteq> BRICK x"
  "BRICK x \<noteq> LitInt i"
  "LitInt i \<noteq> BRICK x"
  "BRICK x \<noteq> LitBool t"
  "LitBool t \<noteq> BRICK x"
  "BSH x \<noteq> BNode b"
  "BNode b \<noteq> BSH x"
  "BSH x \<noteq> Fresh n"
  "Fresh n \<noteq> BSH x"
  "BSH x \<noteq> LitStr l"
  "LitStr l \<noteq> BSH x"
  "BSH x \<noteq> LitInt i"
  "LitInt i \<noteq> BSH x"
  "BSH x \<noteq> LitBool t"
  "LitBool t \<noteq> BSH x"
  "TAG x \<noteq> BNode b"
  "BNode b \<noteq> TAG x"
  "TAG x \<noteq> Fresh n"
  "Fresh n \<noteq> TAG x"
  "TAG x \<noteq> LitStr l"
  "LitStr l \<noteq> TAG x"
  "TAG x \<noteq> LitInt i"
  "LitInt i \<noteq> TAG x"
  "TAG x \<noteq> LitBool t"
  "LitBool t \<noteq> TAG x"
  "RDF x \<noteq> BNode b"
  "BNode b \<noteq> RDF x"
  "RDF x \<noteq> Fresh n"
  "Fresh n \<noteq> RDF x"
  "RDF x \<noteq> LitStr l"
  "LitStr l \<noteq> RDF x"
  "RDF x \<noteq> LitInt i"
  "LitInt i \<noteq> RDF x"
  "RDF x \<noteq> LitBool t"
  "LitBool t \<noteq> RDF x"
  "RDFS x \<noteq> BNode b"
  "BNode b \<noteq> RDFS x"
  "RDFS x \<noteq> Fresh n"
  "Fresh n \<noteq> RDFS x"
  "RDFS x \<noteq> LitStr l"
  "LitStr l \<noteq> RDFS x"
  "RDFS x \<noteq> LitInt i"
  "LitInt i \<noteq> RDFS x"
  "RDFS x \<noteq> LitBool t"
  "LitBool t \<noteq> RDFS x"
  "OWL x \<noteq> BNode b"
  "BNode b \<noteq> OWL x"
  "OWL x \<noteq> Fresh n"
  "Fresh n \<noteq> OWL x"
  "OWL x \<noteq> LitStr l"
  "LitStr l \<noteq> OWL x"
  "OWL x \<noteq> LitInt i"
  "LitInt i \<noteq> OWL x"
  "OWL x \<noteq> LitBool t"
  "LitBool t \<noteq> OWL x"
  "SH x \<noteq> BNode b"
  "BNode b \<noteq> SH x"
  "SH x \<noteq> Fresh n"
  "Fresh n \<noteq> SH x"
  "SH x \<noteq> LitStr l"
  "LitStr l \<noteq> SH x"
  "SH x \<noteq> LitInt i"
  "LitInt i \<noteq> SH x"
  "SH x \<noteq> LitBool t"
  "LitBool t \<noteq> SH x"
  "SKOS x \<noteq> BNode b"
  "BNode b \<noteq> SKOS x"
  "SKOS x \<noteq> Fresh n"
  "Fresh n \<noteq> SKOS x"
  "SKOS x \<noteq> LitStr l"
  "LitStr l \<noteq> SKOS x"
  "SKOS x \<noteq> LitInt i"
  "LitInt i \<noteq> SKOS x"
  "SKOS x \<noteq> LitBool t"
  "LitBool t \<noteq> SKOS x"
  "QUDT x \<noteq> BNode b"
  "BNode b \<noteq> QUDT x"
  "QUDT x \<noteq> Fresh n"
  "Fresh n \<noteq> QUDT x"
  "QUDT x \<noteq> LitStr l"
  "LitStr l \<noteq> QUDT x"
  "QUDT x \<noteq> LitInt i"
  "LitInt i \<noteq> QUDT x"
  "QUDT x \<noteq> LitBool t"
  "LitBool t \<noteq> QUDT x"
  by (simp_all add: ns_defs)

subsection \<open>Local names\<close>

lemma local_name_after_hash: "local_name (xs @ CHR ''#'' # ys) = local_name ys"
proof (cases "\<forall>c \<in> set ys. c \<noteq> CHR ''#''")
  case True
  then have a: "takeWhile (\<lambda>c. c \<noteq> CHR ''#'') (rev ys @ CHR ''#'' # rev xs) = rev ys"
    by (subst takeWhile_append2) auto
  from True have b: "takeWhile (\<lambda>c. c \<noteq> CHR ''#'') (rev ys) = rev ys"
    by (intro takeWhile_eq_all_conv[THEN iffD2]) auto
  show ?thesis
    by (simp add: local_name_def a b)
next
  case False
  then have "CHR ''#'' \<in> set (rev ys)"
    by auto
  then have "takeWhile (\<lambda>c. c \<noteq> CHR ''#'') (rev ys @ CHR ''#'' # rev xs)
      = takeWhile (\<lambda>c. c \<noteq> CHR ''#'') (rev ys)"
    by (intro takeWhile_append1) auto
  then show ?thesis
    by (simp add: local_name_def)
qed

lemma local_part_ns [simp]:
  "local_part (BRICK x) = local_name x"
  "local_part (BSH x) = local_name x"
  "local_part (TAG x) = local_name x"
  "local_part (RDF x) = local_name x"
  "local_part (RDFS x) = local_name x"
  "local_part (OWL x) = local_name x"
  "local_part (SH x) = local_name x"
  "local_part (SKOS x) = local_name x"
  using local_name_after_hash [of "''https://brickschema.org/schema/Brick''" x]
    local_name_after_hash [of "''https://brickschema.org/schema/BrickShape''" x]
    local_name_after_hash [of "''https://brickschema.org/schema/BrickTag''" x]
    local_name_after_hash [of "''http://www.w3.org/1999/02/22-rdf-syntax-ns''" x]
    local_name_after_hash [of "''http://www.w3.org/2000/01/rdf-schema''" x]
    local_name_after_hash [of "''http://www.w3.org/2002/07/owl''" x]
    local_name_after_hash [of "''http://www.w3.org/ns/shacl''" x]
    local_name_after_hash [of "''http://www.w3.org/2004/02/skos/core''" x]
  by (simp_all add: local_part_def ns_defs)

lemma term_str_ns:
  "term_str (BRICK x) = ''https://brickschema.org/schema/Brick#'' @ x"
  "term_str (BSH x) = ''https://brickschema.org/schema/BrickShape#'' @ x"
  "term_str (TAG x) = ''https://brickschema.org/schema/BrickTag#'' @ x"
  by (simp_all add: ns_defs)

lemma str_nat_small: "n < 10 \<Longrightarrow> str_nat n = [digit_char n]"
  by (subst str_nat.simps) simp

lemma str_nat_large:
  "\<not> n < 10 \<Longrightarrow> str_nat n = str_nat (n div 10) @ [digit_char (n mod 10)]"
  by (subst str_nat.simps) simp

text \<open>The definitions a concrete run is evaluated with.\<close>

lemmas eval_defs = add_tags_def add_tags_assoc_def add_tags_condition_def
  add_tags_cardinality_def G_add_def shacl_add_def add_def new_bnode_def has_label_def
  objects_def subjects_def local_name_def underscores_to_spaces_def init_def A_def Let_def
  str_nat_small str_nat_large digit_char_def term_str_ns

subsection \<open>Statements of a graph\<close>

lemma set_add [simp]: "set (add t g) = insert t (set g)"
  by (auto simp: add_def)

lemma G_G_add [simp]: "G (G_add t s) = add t (G s)"
  by (simp add: G_add_def)

lemma set_G_fold_G_add:
  "set (G (fold (\<lambda>x. G_add (f x)) xs s)) = set (G s) \<union> f ` set xs"
  by (induction xs arbitrary: s) auto

lemma set_objects: "set (objects g s p) = {ob. (s, p, ob) \<in> set g}"
  by (force simp: objects_def)

lemma set_pairs: "set (pairs g p) = {(s, ob). (s, p, ob) \<in> set g}"
  by (force simp: pairs_def)

lemma construct_narrower_iff:
  "(b, SKOS ''narrower'', n) \<in> set (construct_narrower g)
     \<longleftrightarrow> (n, SKOS ''broader'', b) \<in> set g \<and> typed_under g b (BRICK ''Entity'')"
  by (force simp: construct_narrower_def set_pairs)

section \<open>The minimal class scenario\<close>

text \<open>
  C6. Compiling the single class \<open>Foo\<close> with the tag list \<open>[T1]\<close> under the parent
  \<open>Entity\<close>, from the empty store, succeeds and emits \<open>Foo subClassOf Entity\<close>,
  \<open>Foo hasAssociatedTag T1\<close> and \<open>T1 type Tag\<close>. The rule graph holds the tag
  inference rule of \<open>Foo\<close> (its shape \<open>Foo_TagShape\<close> has one rule, which asserts
  the type \<open>Foo\<close>); the rule's only condition is the detection condition of \<open>T1\<close> (at
  least one \<open>hasTag\<close> value equal to \<open>T1\<close>), and the only target of the shape is the
  exact-cardinality shape for one tag (\<open>hasTag\<close> with minimum and maximum count 1).
\<close>

theorem minimal_class_scenario:
  "\<exists>s. define_classes [(''Foo'', ClassDef [TAG ''T1''] [] [] [] [])] (BRICK ''Entity'') False init
          = Inr s
     \<and> (BRICK ''Foo'', RDFS ''subClassOf'', BRICK ''Entity'') \<in> set (G s)
     \<and> (BRICK ''Foo'', BRICK ''hasAssociatedTag'', TAG ''T1'') \<in> set (G s)
     \<and> (TAG ''T1'', A, BRICK ''Tag'') \<in> set (G s)
     \<and> objects (shaclGraph s) (BSH ''Foo_TagShape'') (SH ''rule'')
         = [BNode (term_str (BRICK ''Foo'') @ ''TagInferenceRule'')]
     \<and> (BNode (term_str (BRICK ''Foo'') @ ''TagInferenceRule''), SH ''predicate'', RDF ''type'')
         \<in> set (shaclGraph s)
     \<and> (BNode (term_str (BRICK ''Foo'') @ ''TagInferenceRule''), SH ''object'', BRICK ''Foo'')
         \<in> set (shaclGraph s)
     \<and> objects (shaclGraph s) (BNode (term_str (BRICK ''Foo'') @ ''TagInferenceRule''))
           (SH ''condition'')
         = [BNode ''has_T1_condition'']
     \<and> objects (shaclGraph s) (BNode ''has_T1_condition'') (SH ''property'')
         = [BNode ''has_T1_tag'']
     \<and> (BNode ''has_T1_tag'', SH ''path'', BRICK ''hasTag'') \<in> set (shaclGraph s)
     \<and> (BNode ''has_T1_tag'', SH ''qualifiedMinCount'', LitInt 1) \<in> set (shaclGraph s)
     \<and> objects (shaclGraph s) (BNode ''has_T1_tag'') (SH ''qualifiedValueShape'') = [Fresh 0]
     \<and> objects (shaclGraph s) (Fresh 0) (SH ''hasValue'') = [TAG ''T1'']
     \<and> objects (shaclGraph s) (BSH ''Foo_TagShape'') (SH ''targetClass'')
         = [BSH ''has_exactly_1_tags_condition'']
     \<and> objects (shaclGraph s) (BSH ''has_exactly_1_tags_condition'') (SH ''property'')
         = [BNode ''has_exactly_1_tags'']
     \<and> (BNode ''has_exactly_1_tags'', SH ''path'', BRICK ''hasTag'') \<in> set (shaclGraph s)
     \<and> objects (shaclGraph s) (BNode ''has_exactly_1_tags'') (SH ''minCount'') = [LitInt 1]
     \<and> objects (shaclGraph s) (BNode ''has_exactly_1_tags'') (SH ''maxCount'') = [LitInt 1]"
  by (simp add: eval_defs cong: let_weak_cong)

section \<open>Reuse of optional property shapes\<close>

text \<open>
  C1. Two shapes \<open>S1\<close> and \<open>S2\<close> each require the property \<open>p\<close> with nothing but
  \<open>optional: True\<close>. Lowered one after the other from the empty store, \<open>S1\<close> gets the
  new property shape \<open>Fresh 0\<close>, which has the path \<open>p\<close> and no occurrence counts. The
  reuse query on that store still finds nothing for \<open>p\<close>, and \<open>S2\<close> gets a second new
  property shape, \<open>Fresh 1\<close>, instead of \<open>Fresh 0\<close>.
\<close>

theorem optional_shapes_not_shared:
  "\<exists>s1 s2.
     define_shape_property_property files (BSH ''S1'')
       (ShapeProps None [(BRICK ''p'', PropDefn (Some True) None None None [])]) init = Inr s1
   \<and> define_shape_property_property files (BSH ''S2'')
       (ShapeProps None [(BRICK ''p'', PropDefn (Some True) None None None [])]) s1 = Inr s2
   \<and> objects (G s1) (BSH ''S1'') (SH ''property'') = [Fresh 0]
   \<and> objects (G s1) (Fresh 0) (SH ''path'') = [BRICK ''p'']
   \<and> objects (G s1) (Fresh 0) (SH ''minCount'') = []
   \<and> objects (G s1) (Fresh 0) (SH ''maxCount'') = []
   \<and> prop_exists_query (G s1) (BRICK ''p'') = []
   \<and> objects (G s2) (BSH ''S1'') (SH ''property'') = [Fresh 0]
   \<and> objects (G s2) (BSH ''S2'') (SH ''property'') = [Fresh 1]"
  by (simp add: eval_defs define_shape_property_def num_keys_def prop_exists_query_def
      add_relationships_def cong: let_weak_cong)

section \<open>Inverse closure of the taxonomy\<close>

text \<open>
  C2. The quantity \<open>B\<close> lists \<open>A\<close> under \<open>parents\<close>, so the concept hierarchy holds
  \<open>B skos:broader A\<close> without the inverse, and \<open>A\<close> is typed under \<open>brick:Entity\<close>
  (\<open>A type Quantity\<close>, \<open>Quantity subClassOf Measurable subClassOf Entity\<close>). The second
  closure query does build \<open>A skos:narrower B\<close>, but after the closure step the graph
  is what it was: the statement is still missing.
\<close>

lemma taxonomy_example_G:
  "G taxonomy_example =
     [(BRICK ''Measurable'', RDFS ''subClassOf'', BRICK ''Entity''),
      (BRICK ''Quantity'', RDFS ''subClassOf'', BRICK ''Measurable''),
      (BRICK ''A'', RDF ''type'', BRICK ''Quantity''),
      (BRICK ''A'', RDFS ''label'', LitStr ''A''),
      (BRICK ''B'', RDF ''type'', BRICK ''Quantity''),
      (BRICK ''B'', RDFS ''label'', LitStr ''B''),
      (BRICK ''B'', SKOS ''broader'', BRICK ''A'')]"
  by (simp add: taxonomy_example_def eval_defs add_relationships_def cong: let_weak_cong)

theorem closure_result_discarded:
  "(BRICK ''B'', SKOS ''broader'', BRICK ''A'') \<in> set (G taxonomy_example)
   \<and> typed_under (G taxonomy_example) (BRICK ''A'') (BRICK ''Entity'')
   \<and> (BRICK ''A'', SKOS ''narrower'', BRICK ''B'') \<in> set (construct_narrower (G taxonomy_example))
   \<and> (BRICK ''A'', SKOS ''narrower'', BRICK ''B'') \<notin> set (G (skos_closure taxonomy_example))"
proof -
  let ?sub = "set (pairs (G taxonomy_example) (RDFS ''subClassOf''))"
  have "(BRICK ''Quantity'', BRICK ''Measurable'') \<in> ?sub"
    and "(BRICK ''Measurable'', BRICK ''Entity'') \<in> ?sub"
    by (simp_all add: taxonomy_example_G pairs_def)
  then have "(BRICK ''Quantity'', BRICK ''Entity'') \<in> ?sub\<^sup>*"
    by (meson r_into_rtrancl rtrancl_trans)
  moreover have "BRICK ''Quantity'' \<in> set (objects (G taxonomy_example) (BRICK ''A'') A)"
    by (simp add: taxonomy_example_G objects_def A_def)
  ultimately have typed: "typed_under (G taxonomy_example) (BRICK ''A'') (BRICK ''Entity'')"
    unfolding typed_under_def by blast
  have broader: "(BRICK ''B'', SKOS ''broader'', BRICK ''A'') \<in> set (G taxonomy_example)"
    by (simp add: taxonomy_example_G)
  have "(BRICK ''A'', SKOS ''narrower'', BRICK ''B'') \<notin> set (G (skos_closure taxonomy_example))"
    by (simp add: skos_closure_def taxonomy_example_G)
  with typed broader show ?thesis
    by (simp add: construct_narrower_iff)
qed

section \<open>Deprecations\<close>

text \<open>
  A term that has the label \<open>Legacy name\<close> before it is deprecated has two labels
  afterwards: \<open>handle_deprecations\<close> adds the label made from the local name without
  looking for an existing one. The store is the one \<open>define_concept_hierarchy\<close>
  builds for a concept \<open>Old\<close> whose definition gives that label.
\<close>

theorem deprecation_label_counterexample:
  "has_label (BRICK ''Old'')
     (define_concept_hierarchy
        [(''Old'', ConceptDef (Some (LitStr ''Legacy name'')) None None [] [])]
        [BRICK ''Quantity''] None None init)
   \<and> (case handle_deprecations
              [(BRICK ''Old'',
                \<lparr>dep_subClassOf = None, dep_narrower = None,
                 dep_version = Some (LitStr ''1.2''),
                 dep_mitigation_message = Some (LitStr ''Use New''),
                 dep_replace_with = Some (BRICK ''New'')\<rparr>)]
              (define_concept_hierarchy
                 [(''Old'', ConceptDef (Some (LitStr ''Legacy name'')) None None [] [])]
                 [BRICK ''Quantity''] None None init) of
         Inr s' \<Rightarrow> objects (G s') (BRICK ''Old'') (RDFS ''label'')
       | Inl e \<Rightarrow> [])
       = [LitStr ''Legacy name'', LitStr ''Old'']"
  by (simp add: eval_defs handle_deprecation_def add_relationships_def dep_targets_def
      cong: let_weak_cong)

text \<open>
  C8 (amended). For a deprecated term whose metadata has a version, a mitigation message
  and a successor, \<open>handle_deprecation\<close> succeeds and adds exactly these statements to
  the graph: the class assertion, the deprecated flag, the label made from the local
  name (whether or not the term has a label already), the version, the mitigation
  message, the replaced-by edge, and the subclass edges when the metadata has the key
  \<open>RDFS.subClassOf\<close>, otherwise the narrower-concept edges when it has the key
  \<open>SKOS.narrower\<close>: never both.
\<close>

theorem deprecation_statements:
  assumes "dep_version md = Some version"
    and "dep_mitigation_message md = Some message"
    and "dep_replace_with md = Some successor"
  shows "\<exists>s'. handle_deprecation deprecated_term md s = Inr s'
     \<and> set (G s') = set (G s)
         \<union> {(deprecated_term, A, OWL ''Class''),
             (deprecated_term, OWL ''deprecated'', LitBool True),
             (deprecated_term, RDFS ''label'',
                LitStr (underscores_to_spaces (local_part deprecated_term))),
             (deprecated_term, BRICK ''deprecatedInVersion'', version),
             (deprecated_term, BRICK ''deprecationMitigationMessage'', message),
             (deprecated_term, BRICK ''isReplacedBy'', successor)}
         \<union> (case dep_subClassOf md of
              Some superclasses \<Rightarrow>
                (\<lambda>x. (deprecated_term, RDFS ''subClassOf'', x)) ` set (dep_targets superclasses)
            | None \<Rightarrow>
                (case dep_narrower md of
                   Some subconcepts \<Rightarrow>
                     (\<lambda>x. (deprecated_term, SKOS ''narrower'', x)) ` set (dep_targets subconcepts)
                 | None \<Rightarrow> {}))"
  using assms
  by (auto simp: handle_deprecation_def Let_def set_G_fold_G_add split: option.splits)

theorem deprecation_statements_witness:
  "\<exists>s'. handle_deprecation (BRICK ''Old'')
           \<lparr>dep_subClassOf = Some (DepMany [BRICK ''X'']),
            dep_narrower = Some (DepOne (BRICK ''N'')),
            dep_version = Some (LitStr ''1.2''),
            dep_mitigation_message = Some (LitStr ''Use New''),
            dep_replace_with = Some (BRICK ''New'')\<rparr> init = Inr s'
     \<and> set (G s') =
         {(BRICK ''Old'', A, OWL ''Class''),
          (BRICK ''Old'', OWL ''deprecated'', LitBool True),
          (BRICK ''Old'', RDFS ''label'', LitStr ''Old''),
          (BRICK ''Old'', BRICK ''deprecatedInVersion'', LitStr ''1.2''),
          (BRICK ''Old'', BRICK ''deprecationMitigationMessage'', LitStr ''Use New''),
          (BRICK ''Old'', BRICK ''isReplacedBy'', BRICK ''New''),
          (BRICK ''Old'', RDFS ''subClassOf'', BRICK ''X'')}"
  using deprecation_statements
    [of "\<lparr>dep_subClassOf = Some (DepMany [BRICK ''X'']),
            dep_narrower = Some (DepOne (BRICK ''N'')),
            dep_version = Some (LitStr ''1.2''),
            dep_mitigation_message = Some (LitStr ''Use New''),
            dep_replace_with = Some (BRICK ''New'')\<rparr>"
        "LitStr ''1.2''" "LitStr ''Use New''" "BRICK ''New''" "BRICK ''Old''" init]
  by (simp add: dep_targets_def init_def underscores_to_spaces_def local_name_def insert_commute)

section \<open>Range of a relationship\<close>


section \<open>Required metadata of an entity property\<close>

text \<open>
  C10. An entity-property definition that lacks \<open>property_of\<close>, \<open>SH.node\<close> or
  \<open>RDFS.label\<close> makes \<open>define_entity_properties\<close> fail with an assertion error when it
  reaches that property, and the store at the failure is the store the property was
  reached with: no statement for the property has been emitted. In particular a
  definition that has both \<open>property_of\<close> and \<open>SH.node\<close> and lacks only the label fails
  with the message about the missing label.
\<close>

theorem entity_property_requires_metadata:
  assumes "property_of defn = None \<or> sh_node defn = None \<or> ep_label defn = None"
  shows "(\<exists>msg. define_entity_properties ((entprop, defn) # rest) superprop s
                  = Inl (AssertionError msg, s))
       \<and> (property_of defn \<noteq> None \<and> sh_node defn \<noteq> None \<longrightarrow>
            define_entity_properties ((entprop, defn) # rest) superprop s
              = Inl (AssertionError (term_str entprop @ '' missing a RDFS.label annotation''), s))"
  using assms by auto

theorem entity_property_requires_metadata_witness:
  "ep_label (EpDef (Some (One (BRICK ''Equipment''))) (Some (BSH ''AreaShape'')) None None []) = None
   \<and> define_entity_properties
         [(BRICK ''area'', EpDef (Some (One (BRICK ''Equipment''))) (Some (BSH ''AreaShape'')) None None [])]
         None init
       = Inl (AssertionError (term_str (BRICK ''area'') @ '' missing a RDFS.label annotation''), init)"
  using entity_property_requires_metadata
    [of "EpDef (Some (One (BRICK ''Equipment''))) (Some (BSH ''AreaShape'')) None None []"
        "BRICK ''area''" "[]" None init]
  by simp

section \<open>Labels of classes\<close>

subsection \<open>What each step does to the label statements\<close>

lemma label_statements_add:
  "label_statements (add t g)
     = (if fst (snd t) = RDFS ''label'' then insert t (label_statements g)
        else label_statements g)"
  by (auto simp: label_statements_def)


lemma has_label_iff: "has_label c s \<longleftrightarrow> (\<exists>l. (c, RDFS ''label'', l) \<in> label_statements (G s))"
proof -
  have "has_label c s \<longleftrightarrow> set (objects (G s) c (RDFS ''label'')) \<noteq> {}"
    by (simp add: has_label_def)
  then show ?thesis
    by (auto simp: set_objects label_statements_def)
qed

lemma G_shacl_add [simp]: "G (shacl_add t s) = G s"
  by (simp add: shacl_add_def)

lemma G_new_bnode [simp]: "G (snd (new_bnode s)) = G s"
  by (simp add: new_bnode_def)

lemma G_fold_add_tags_assoc:
  "set (G (fold (add_tags_assoc klass) taglist s))
     = set (G s) \<union> (\<lambda>tag. (klass, BRICK ''hasAssociatedTag'', tag)) ` set taglist
       \<union> (\<lambda>tag. (tag, A, BRICK ''Tag'')) ` set taglist \<union> tag_labels taglist"
  by (induction taglist arbitrary: s) (auto simp: add_tags_assoc_def tag_labels_def)

lemma labels_fold_add_tags_assoc:
  "label_statements (G (fold (add_tags_assoc klass) taglist s))
     = label_statements (G s) \<union> tag_labels taglist"
  by (auto simp: label_statements_def G_fold_add_tags_assoc tag_labels_def A_def)

lemma add_tags_condition_G:
  "set (G s) \<subseteq> set (G (add_tags_condition klass rule tag s))
   \<and> label_statements (G (add_tags_condition klass rule tag s)) = label_statements (G s)"
  by (auto simp: add_tags_condition_def Let_def new_bnode_def shacl_add_def G_add_def
      label_statements_def A_def split: option.splits prod.splits)

lemma fold_add_tags_condition_G:
  "set (G s) \<subseteq> set (G (fold (add_tags_condition klass rule) taglist s))
   \<and> label_statements (G (fold (add_tags_condition klass rule) taglist s))
       = label_statements (G s)"
proof (induction taglist arbitrary: s)
  case Nil
  then show ?case by simp
next
  case (Cons tag taglist)
  from add_tags_condition_G [of s klass rule tag]
    Cons.IH [of "add_tags_condition klass rule tag s"]
  show ?case by auto
qed

lemma G_add_tags_cardinality [simp]: "G (add_tags_cardinality n s) = G s"
  by (simp add: add_tags_cardinality_def Let_def)

lemma add_tags_G:
  "set (G s) \<subseteq> set (G (add_tags klass taglist s))
   \<and> label_statements (G (add_tags klass taglist s)) = label_statements (G s) \<union> tag_labels taglist"
proof (cases "taglist = []")
  case True
  then show ?thesis by (simp add: add_tags_def tag_labels_def)
next
  case False
  let ?s1 = "fold (add_tags_assoc klass) taglist s"
  define rule where "rule = BNode (term_str klass @ ''TagInferenceRule'')"
  define sc where "sc = BSH (local_part klass @ ''_TagShape'')"
  define s2 where "s2 =
    shacl_add (rule, SH ''object'', klass)
      (shacl_add (rule, SH ''predicate'', RDF ''type'')
        (shacl_add (rule, SH ''subject'', SH ''this'')
          (shacl_add (rule, A, SH ''TripleRule'')
            (shacl_add (sc, SH ''rule'', rule)
              (shacl_add (sc, A, SH ''NodeShape'') ?s1)))))"
  have s2: "G s2 = G ?s1"
    by (simp add: s2_def)
  have eq: "G (add_tags klass taglist s) = G (fold (add_tags_condition klass rule) taglist s2)"
    using False
    by (simp add: add_tags_def Let_def s2_def rule_def sc_def split: option.splits)
  from fold_add_tags_condition_G [of s2 klass rule taglist] s2 eq
  have "set (G ?s1) \<subseteq> set (G (add_tags klass taglist s))"
    and "label_statements (G (add_tags klass taglist s)) = label_statements (G ?s1)"
    by auto
  then show ?thesis
    by (auto simp: labels_fold_add_tags_assoc G_fold_add_tags_assoc)
qed

lemma G_add_sub: "set (G s) \<subseteq> set (G (G_add t s))"
  by auto

lemma labels_G_add_other:
  "fst (snd t) \<noteq> RDFS ''label'' \<Longrightarrow> label_statements (G (G_add t s)) = label_statements (G s)"
  by (simp add: label_statements_add)

lemma Collection_step:
  "\<exists>e' s1. Collection e (x # xs) s = Collection e' xs s1 \<and> set (G s) \<subseteq> set (G s1)
      \<and> label_statements (G s1) = label_statements (G s)"
proof (cases "e = RDF ''nil'' \<or> (\<exists>t \<in> set (G s). fst t = e \<and> fst (snd t) = RDF ''first'')")
  case True
  let ?s1 = "G_add (Fresh (bnodes s), RDF ''first'', x)
               (G_add (e, RDF ''rest'', Fresh (bnodes s)) (snd (new_bnode s)))"
  have "Collection e (x # xs) s = Collection (Fresh (bnodes s)) xs ?s1"
    using True by (simp add: new_bnode_def)
  moreover have "set (G s) \<subseteq> set (G ?s1)"
    by auto
  moreover have "label_statements (G ?s1) = label_statements (G s)"
    by (simp add: label_statements_add)
  ultimately show ?thesis by blast
next
  case False
  let ?s1 = "G_add (e, RDF ''first'', x) s"
  have "Collection e (x # xs) s = Collection e xs ?s1"
    by (simp only: Collection.simps False if_False)
  moreover have "set (G s) \<subseteq> set (G ?s1)"
    by auto
  moreover have "label_statements (G ?s1) = label_statements (G s)"
    by (simp add: label_statements_add)
  ultimately show ?thesis by blast
qed

lemma Collection_G:
  "set (G s) \<subseteq> set (G (Collection e xs s))
   \<and> label_statements (G (Collection e xs s)) = label_statements (G s)"
proof (induction xs arbitrary: e s)
  case Nil
  then show ?case by (auto simp: label_statements_add)
next
  case (Cons x xs)
  from Collection_step [of e x xs s] obtain e' s1 where
    "Collection e (x # xs) s = Collection e' xs s1" "set (G s) \<subseteq> set (G s1)"
    "label_statements (G s1) = label_statements (G s)"
    by blast
  with Cons.IH [of s1 e'] show ?case
    by auto
qed

lemma constraint_members_G:
  "constraint_members pvs acc s = (nodes, s') \<Longrightarrow>
     set (G s) \<subseteq> set (G s') \<and> label_statements (G s') = label_statements (G s)"
proof (induction pvs arbitrary: acc s)
  case Nil
  then show ?case by simp
next
  case (Cons pv pvs)
  let ?s1 = "G_add (Fresh (bnodes s), SH ''class'', pv) (snd (new_bnode s))"
  from Cons.prems have "constraint_members pvs (acc @ [Fresh (bnodes s)]) ?s1 = (nodes, s')"
    by (simp add: new_bnode_def)
  from Cons.IH [OF this] show ?case
    by (auto simp: label_statements_add)
qed

lemma define_constraint_G:
  assumes "define_constraint classname property_name property_values s = Inr s'"
  shows "set (G s) \<subseteq> set (G s') \<and> label_statements (G s') = label_statements (G s)"
proof -
  let ?s3 = "G_add (Fresh (bnodes s), SH ''path'', property_name)
               (G_add (classname, SH ''property'', Fresh (bnodes s))
                 (G_add (classname, A, SH ''NodeShape'') (snd (new_bnode (snd (new_bnode s))))))"
  have base: "set (G s) \<subseteq> set (G ?s3) \<and> label_statements (G ?s3) = label_statements (G s)"
    by (auto simp: label_statements_add A_def)
  show ?thesis
  proof (cases property_values)
    case (Allowed v)
    with assms obtain u where v: "v = URIRef u"
      by (cases v) (auto simp: define_constraint_def Let_def new_bnode_def)
    with assms Allowed have "s' = G_add (Fresh (bnodes s), SH ''class'', URIRef u) ?s3"
      by (simp add: define_constraint_def Let_def new_bnode_def)
    with base show ?thesis
      by (auto simp: label_statements_add)
  next
    case (AllowedList pvs)
    let ?s4 = "G_add (Fresh (bnodes s), SH ''or'', Fresh (Suc (bnodes s))) ?s3"
    obtain nodes s5 where cm: "constraint_members pvs [] ?s4 = (nodes, s5)"
      by (cases "constraint_members pvs [] ?s4") auto
    with assms AllowedList have "s' = Collection (Fresh (Suc (bnodes s))) nodes s5"
      by (simp add: define_constraint_def Let_def new_bnode_def)
    with base constraint_members_G [OF cm] Collection_G [of s5 "Fresh (Suc (bnodes s))" nodes]
    show ?thesis
      by (auto simp: label_statements_add)
  qed
qed

lemma define_constraints_G:
  "define_constraints cs classname s = Inr s' \<Longrightarrow>
     set (G s) \<subseteq> set (G s') \<and> label_statements (G s') = label_statements (G s)"
proof (induction cs arbitrary: s)
  case Nil
  then show ?case by simp
next
  case (Cons c cs)
  obtain pn pv where c: "c = (pn, pv)" by (cases c)
  with Cons.prems obtain s1 where
    s1: "define_constraint classname pn pv s = Inr s1" "define_constraints cs classname s1 = Inr s'"
    by (auto simp: bind_def split: sum.splits)
  from define_constraint_G [OF s1(1)] Cons.IH [OF s1(2)] show ?case
    by auto
qed



lemma copy_property_G:
  "set (G s) \<subseteq> set (G (copy_property c kv s))
   \<and> label_statements (G (copy_property c kv s))
       = label_statements (G s) \<union> other_labels c [kv]"
proof (cases kv)
  case (Pair k v)
  show ?thesis
  proof (cases v)
    case (One x)
    with Pair show ?thesis
      by (auto simp: copy_property_def label_statements_add other_labels_def propval_terms_def)
  next
    case (Many xs)
    with Pair show ?thesis
      by (auto simp: copy_property_def set_G_fold_G_add label_statements_def other_labels_def
          propval_terms_def)
  qed
qed

lemma other_labels_Cons:
  "other_labels c (kv # kvs) = other_labels c [kv] \<union> other_labels c kvs"
  by (auto simp: other_labels_def)

lemma fold_copy_property_G:
  "set (G s) \<subseteq> set (G (fold (copy_property c) kvs s))
   \<and> label_statements (G (fold (copy_property c) kvs s))
       = label_statements (G s) \<union> other_labels c kvs"
proof (induction kvs arbitrary: s)
  case Nil
  then show ?case by (simp add: other_labels_def)
next
  case (Cons kv kvs)
  from copy_property_G [of s c kv] Cons.IH [of "copy_property c kv s"]
  show ?case
    by (subst other_labels_Cons) auto
qed

lemma class_head_G:
  "set (G s) \<subseteq> set (G (class_head name defn parent pun s))"
  "has_label (BRICK name) (class_head name defn parent pun s)"
  "label_statements (G (class_head name defn parent pun s))
     = label_statements (G s)
       \<union> (if has_label (BRICK name) s then {}
          else {(BRICK name, RDFS ''label'', LitStr (underscores_to_spaces (local_name name)))})
       \<union> tag_labels (tags defn)"
proof -
  define s2 where "s2 = G_add (BRICK name, RDFS ''subClassOf'', parent)
                          (G_add (BRICK name, A, OWL ''Class'') s)"
  define s3 where "s3 = (if \<not> has_label (BRICK name) s2
      then G_add (BRICK name, RDFS ''label'', LitStr (underscores_to_spaces (local_name name))) s2
      else s2)"
  define s4 where "s4 = (if pun then G_add (BRICK name, A, BRICK name) s3 else s3)"
  define s5 where "s5 = (if length (tags defn) = 0
      then s4\<lparr>warnings := warnings s4 @ [''Property 'tags' not defined for '' @ term_str (BRICK name)]\<rparr>
      else s4)"
  have head: "class_head name defn parent pun s = add_tags (BRICK name) (tags defn) s5"
    by (simp add: class_head_def Let_def s5_def s4_def s3_def s2_def)
  have l2: "label_statements (G s2) = label_statements (G s)" and g2: "set (G s) \<subseteq> set (G s2)"
    by (auto simp: s2_def label_statements_add A_def)
  then have h2: "has_label (BRICK name) s2 \<longleftrightarrow> has_label (BRICK name) s"
    by (simp add: has_label_iff)
  have l3: "label_statements (G s3) = label_statements (G s)
       \<union> (if has_label (BRICK name) s then {}
          else {(BRICK name, RDFS ''label'', LitStr (underscores_to_spaces (local_name name)))})"
    and g3: "set (G s2) \<subseteq> set (G s3)"
    by (auto simp: s3_def h2 l2 label_statements_add)
  have h3: "has_label (BRICK name) s3"
    unfolding has_label_iff l3 by (auto simp: has_label_iff)
  have l5: "label_statements (G s5) = label_statements (G s3)" and g5: "set (G s3) \<subseteq> set (G s5)"
    by (auto simp: s5_def s4_def label_statements_add A_def)
  from add_tags_G [of s5 "BRICK name" "tags defn"] g2 g3 g5
  show "set (G s) \<subseteq> set (G (class_head name defn parent pun s))"
    by (auto simp: head)
  from add_tags_G [of s5 "BRICK name" "tags defn"] l5 l3
  show "label_statements (G (class_head name defn parent pun s))
     = label_statements (G s)
       \<union> (if has_label (BRICK name) s then {}
          else {(BRICK name, RDFS ''label'', LitStr (underscores_to_spaces (local_name name)))})
       \<union> tag_labels (tags defn)"
    by (simp add: head)
  with h3 l5 l3 show "has_label (BRICK name) (class_head name defn parent pun s)"
    by (auto simp: has_label_iff)
qed

lemma class_tail_G:
  assumes "class_tail name defn s = Inr s'"
  shows "set (G s) \<subseteq> set (G s')"
    and "label_statements (G s') = label_statements (G s) \<union> other_labels (BRICK name) (others defn)"
proof -
  let ?s1 = "fold (\<lambda>p. G_add (BRICK name, RDFS ''subClassOf'', p)) (parents defn) s"
  from assms obtain s2 where
    s2: "define_constraints (constraints defn) (BRICK name) ?s1 = Inr s2"
    and s': "s' = fold (copy_property (BRICK name)) (others defn) s2"
    by (auto simp: class_tail_def Let_def split: sum.splits)
  have g1: "set (G s) \<subseteq> set (G ?s1)" and l1: "label_statements (G ?s1) = label_statements (G s)"
    by (auto simp: set_G_fold_G_add label_statements_def)
  from define_constraints_G [OF s2] fold_copy_property_G [of s2 "BRICK name" "others defn"] g1 l1 s'
  show "set (G s) \<subseteq> set (G s')"
    and "label_statements (G s') = label_statements (G s) \<union> other_labels (BRICK name) (others defn)"
    by auto
qed


lemma define_class_decomp:
  "define_class name defn parent pun s =
     (case define_classes (subclasses defn) (BRICK name) False (class_head name defn parent pun s) of
        Inl e \<Rightarrow> Inl e
      | Inr s1 \<Rightarrow> class_tail name defn s1)"
  by (simp add: class_head_def class_tail_def Let_def cong: sum.case_cong)

lemma classdefs_induct [case_names Nil Cons]:
  assumes "P []"
    and "\<And>name defn rest. P (subclasses defn) \<Longrightarrow> P rest \<Longrightarrow> P ((name, defn) # rest)"
  shows "P defs"
proof (induction defs rule: measure_induct_rule [where f = "size_list (size_prod (\<lambda>_. 0) size)"])
  case (less defs)
  show ?case
  proof (cases defs)
    case Nil
    with assms(1) show ?thesis by simp
  next
    case (Cons nd rest)
    obtain name defn where nd: "nd = (name, defn)" by (cases nd)
    have "size_list (size_prod (\<lambda>_. 0) size) (subclasses defn) < size defn"
      by (cases defn) simp
    with Cons nd have "P (subclasses defn)" "P rest"
      by (auto intro!: less.IH)
    with assms(2) Cons nd show ?thesis by simp
  qed
qed

lemma define_classes_Cons_Inr:
  assumes "define_classes ((name, defn) # rest) parent pun s = Inr s'"
  obtains c t where
    "define_classes (subclasses defn) (BRICK name) False (class_head name defn parent pun s) = Inr c"
    "class_tail name defn c = Inr t"
    "define_classes rest parent pun t = Inr s'"
  using assms by (auto simp: define_class_decomp simp del: define_class.simps split: sum.splits)

lemma define_classes_mono:
  "define_classes defs parent pun s = Inr s' \<Longrightarrow> set (G s) \<subseteq> set (G s')"
proof (induction defs arbitrary: parent pun s s' rule: classdefs_induct)
  case Nil
  then show ?case by simp
next
  case (Cons name defn rest)
  from Cons.prems obtain c t where
    c: "define_classes (subclasses defn) (BRICK name) False (class_head name defn parent pun s) = Inr c"
    and t: "class_tail name defn c = Inr t"
    and r: "define_classes rest parent pun t = Inr s'"
    by (rule define_classes_Cons_Inr)
  from class_head_G(1) [of s name defn parent pun] Cons.IH(1) [OF c] class_tail_G(1) [OF t]
    Cons.IH(2) [OF r]
  show ?case by blast
qed

lemma has_label_mono: "has_label c s \<Longrightarrow> set (G s) \<subseteq> set (G s') \<Longrightarrow> has_label c s'"
  by (auto simp: has_label_iff label_statements_def)

lemma define_classes_labelled:
  "define_classes defs parent pun s = Inr s' \<Longrightarrow> (name, defn) \<in> set defs
     \<Longrightarrow> has_label (BRICK name) s'"
proof (induction defs arbitrary: s)
  case Nil
  then show ?case by simp
next
  case (Cons nd rest)
  obtain n d where nd: "nd = (n, d)" by (cases nd)
  from Cons.prems(1) [unfolded nd] obtain c t where
    c: "define_classes (subclasses d) (BRICK n) False (class_head n d parent pun s) = Inr c"
    and t: "class_tail n d c = Inr t"
    and r: "define_classes rest parent pun t = Inr s'"
    by (rule define_classes_Cons_Inr)
  show ?case
  proof (cases "(name, defn) = nd")
    case True
    with nd have "has_label (BRICK name) (class_head n d parent pun s)"
      using class_head_G(2) [of n d parent pun s] by simp
    with define_classes_mono [OF c] class_tail_G(1) [OF t] define_classes_mono [OF r]
    show ?thesis
      by (blast intro: has_label_mono)
  next
    case False
    with Cons.prems(2) have "(name, defn) \<in> set rest" by auto
    from Cons.IH [OF r this] show ?thesis .
  qed
qed








section \<open>Propagation of units along the taxonomy\<close>

subsection \<open>The two passes\<close>
























end
